theory Spec2Isabelle
  imports
    Main
    "HOL-Library.Word"
    "HOL-Library.Multiset"
    "HOL-Library.Char_ord"
    "HOL-Library.List_Lexorder"
begin

unbundle bit_operations_syntax

section \<open>EduShare API: the request router of \<^verbatim>\<open>src/api/index.js\<close>\<close>

text \<open>
  The file is one Express application: five routes over two remote stores, a document
  store partitioned by \<^verbatim>\<open>/visibility\<close> and a blob container. Each handler is an
  \<^verbatim>\<open>async\<close> function whose body is a single \<^verbatim>\<open>try\<close> block; its \<^verbatim>\<open>catch\<close> answers
  HTTP 500. The embedding keeps that shape: a handler is a computation over the two
  stores that either returns a response or raises, and \<open>try_catch\<close> closes it.

  The repository's second file is a stub server whose only route answers
  \<^verbatim>\<open>GET /files\<close> with the empty array; nothing below is about it.
\<close>

subsection \<open>JavaScript values and strings\<close>

text \<open>
  A request field is whatever the parsers put there: \<^verbatim>\<open>undefined\<close> when the field is
  absent, a string, or (from a JSON body, a repeated query parameter, a bracketed
  parameter) any other JSON value. Only the truthiness of a number is ever observed
  by the code, so numbers are integers here.

  A \<open>string\<close> is a list of 8-bit characters: the strings of the model are the
  JavaScript strings whose code units lie below 256 (Latin-1). On them \<open>\s\<close> and
  \<^verbatim>\<open>trim\<close> see the seven characters of \<open>is_space\<close>, and \<^verbatim>\<open>toLowerCase\<close> shifts the
  two upper-case ranges by 32.
\<close>

datatype jsval =
    JUndefined
  | JNull
  | JBool bool
  | JNum int
  | JStr string
  | JArr "jsval list"
  | JObj "(string \<times> jsval) list"

datatype exn = TypeError string | SdkError string

fun message :: "exn \<Rightarrow> string" where
  "message (TypeError m) = m"
| "message (SdkError m) = m"

fun truthy :: "jsval \<Rightarrow> bool" where
  "truthy JUndefined = False"
| "truthy JNull = False"
| "truthy (JBool b) = b"
| "truthy (JNum n) = (n \<noteq> 0)"
| "truthy (JStr s) = (s \<noteq> [])"
| "truthy (JArr xs) = True"
| "truthy (JObj kvs) = True"

text \<open>\<^verbatim>\<open>a || b\<close>\<close>

definition js_or :: "jsval \<Rightarrow> jsval \<Rightarrow> jsval" where
  "js_or a b = (if truthy a then a else b)"

definition is_space :: "char \<Rightarrow> bool" where
  "is_space c =
     (c \<in> set [CHR 0x09, CHR 0x0A, CHR 0x0B, CHR 0x0C, CHR 0x0D, CHR 0x20, CHR 0xA0])"

definition lower_char :: "char \<Rightarrow> char" where
  "lower_char c =
     (let n = (of_char c :: nat)
      in if (65 \<le> n \<and> n \<le> 90) \<or> (192 \<le> n \<and> n \<le> 222 \<and> n \<noteq> 215)
         then char_of (n + 32) else c)"

text \<open>
  \<^verbatim>\<open>v.toLowerCase()\<close> and \<^verbatim>\<open>v.trim()\<close>: methods of strings. On any other value the
  property is \<^verbatim>\<open>undefined\<close> (or the receiver has no properties) and the call raises a
  \<^verbatim>\<open>TypeError\<close>, whose message text is the engine's.
\<close>

fun toLowerCase :: "jsval \<Rightarrow> exn + string" where
  "toLowerCase (JStr s) = Inr (map lower_char s)"
| "toLowerCase v = Inl (TypeError ''toLowerCase is not a function'')"

definition trim_str :: "string \<Rightarrow> string" where
  "trim_str s = rev (dropWhile is_space (rev (dropWhile is_space s)))"

fun trim :: "jsval \<Rightarrow> exn + string" where
  "trim (JStr s) = Inr (trim_str s)"
| "trim v = Inl (TypeError ''trim is not a function'')"

text \<open>
  \<^verbatim>\<open>s.replace(/\s+/g, "_")\<close>: every maximal run of white space becomes one
  underscore. The flag says that the previous character belonged to a run.
\<close>

fun replace_runs :: "bool \<Rightarrow> string \<Rightarrow> string" where
  "replace_runs inrun [] = []"
| "replace_runs inrun (c # cs) =
     (if is_space c
      then (if inrun then replace_runs True cs else CHR ''_'' # replace_runs True cs)
      else c # replace_runs False cs)"

definition replace_ws :: "string \<Rightarrow> string" where
  "replace_ws s = replace_runs False s"

subsection \<open>Helpers of the source\<close>

text \<open>
  \<^verbatim>\<open>safeVisibility(v)\<close>, lines 46 to 50:
  \<^verbatim>\<open>const vis = (v || "private").toLowerCase();
  if (!["public", "private"].includes(vis)) return "private";
  return vis;\<close>
\<close>

definition safeVisibility :: "jsval \<Rightarrow> exn + string" where
  "safeVisibility v =
     (case toLowerCase (js_or v (JStr ''private'')) of
        Inl e \<Rightarrow> Inl e
      | Inr vis \<Rightarrow>
          if vis \<notin> set [''public'', ''private''] then Inr ''private'' else Inr vis)"

text \<open>
  \<^verbatim>\<open>makeId()\<close>, lines 42 to 44, draws from Node's \<^verbatim>\<open>crypto\<close> module:
  \<^verbatim>\<open>crypto.randomUUID ? crypto.randomUUID() : crypto.randomBytes(16).toString("hex")\<close>.
  The sixteen random bytes are an input of the model (\<open>entropy\<close>, byte by byte);
  \<^verbatim>\<open>randomUUID\<close> is the version 4 layout of RFC 4122 over them: the version nibble
  and the variant bits are fixed and the lower-case hex digits are grouped 8-4-4-4-12.
\<close>

definition hex_digit :: "nat \<Rightarrow> char" where
  "hex_digit n = ''0123456789abcdef'' ! n"

definition hex_byte :: "8 word \<Rightarrow> string" where
  "hex_byte b = [hex_digit (unat b div 16), hex_digit (unat b mod 16)]"

definition toString_hex :: "8 word list \<Rightarrow> string" where
  "toString_hex bs = concat (map hex_byte bs)"

definition randomBytes :: "(nat \<Rightarrow> 8 word) \<Rightarrow> nat \<Rightarrow> 8 word list" where
  "randomBytes entropy n = map entropy [0..<n]"

definition randomUUID :: "(nat \<Rightarrow> 8 word) \<Rightarrow> string" where
  "randomUUID entropy =
     (let b = randomBytes entropy 16;
          b = b[6 := (b ! 6 AND 0x0f) OR 0x40];
          b = b[8 := (b ! 8 AND 0x3f) OR 0x80]
      in toString_hex (take 4 b) @ ''-'' @
         toString_hex (take 2 (drop 4 b)) @ ''-'' @
         toString_hex (take 2 (drop 6 b)) @ ''-'' @
         toString_hex (take 2 (drop 8 b)) @ ''-'' @
         toString_hex (drop 10 b))"

definition makeId :: "bool \<Rightarrow> (nat \<Rightarrow> 8 word) \<Rightarrow> string" where
  "makeId hasRandomUUID entropy =
     (if hasRandomUUID then randomUUID entropy
      else toString_hex (randomBytes entropy 16))"

subsection \<open>The Asset document and the two stores\<close>

text \<open>
  The document built at lines 76 to 87. The fields \<^verbatim>\<open>id\<close> and \<^verbatim>\<open>size\<close> are
  \<open>id_field\<close> and \<open>size_field\<close> here. The system properties the document store adds
  to what it returns (\<^verbatim>\<open>_etag\<close>, \<^verbatim>\<open>_ts\<close> and the like) are not modelled.
\<close>

record asset =
  id_field :: string
  visibility :: string
  title :: string
  fileName :: string
  mimeType :: string
  size_field :: nat
  blobName :: string
  blobUrl :: string
  createdAt :: string
  updatedAt :: string

text \<open>\<^verbatim>\<open>req.file\<close> as multer's memory storage leaves it.\<close>

record upload_file =
  originalname :: string
  mimetype :: string
  file_size :: nat
  buffer :: "8 word list"

record blob =
  content :: "8 word list"
  blobContentType :: string

text \<open>Every call the handlers make on the two SDK clients, with the arguments that address it.\<close>

datatype sdk_call =
    CreateIfNotExists
  | UploadData string
  | ItemsCreate string string
  | QueryItems "string option"
  | ItemRead string string
  | ItemReplace string string
  | ItemDelete string string
  | DeleteIfExists string

text \<open>
  The stores, and the calls issued so far. A document is addressed by its id and its
  partition key value; the container's partition key path is \<^verbatim>\<open>/visibility\<close>
  (line 78).
\<close>

record world =
  docs :: "asset list"
  containerExists :: bool
  blobs :: "string \<rightharpoonup> blob"
  calls :: "sdk_call list"

text \<open>
  What a request meets and cannot choose: which SDK calls reject and with what
  message, whether \<^verbatim>\<open>crypto.randomUUID\<close> exists, the random bytes, what the
  \<open>n\<close>-th \<^verbatim>\<open>new Date().toISOString()\<close> of the request returns, and the URL the blob
  client reports for a blob name.
\<close>

record env =
  failure :: "sdk_call \<Rightarrow> string option"
  hasRandomUUID :: bool
  entropy :: "nat \<Rightarrow> 8 word"
  clock :: "nat \<Rightarrow> string"
  blobUrlOf :: "string \<Rightarrow> string"

subsection \<open>Asynchronous steps that may reject\<close>

type_synonym 'a io = "world \<Rightarrow> (exn + 'a) \<times> world"

definition ret :: "'a \<Rightarrow> 'a io" where
  "ret x w = (Inr x, w)"

definition from_result :: "exn + 'a \<Rightarrow> 'a io" where
  "from_result r w = (r, w)"

definition await :: "'a io \<Rightarrow> ('a \<Rightarrow> 'b io) \<Rightarrow> 'b io" where
  "await m k w = (case m w of (Inl err, w') \<Rightarrow> (Inl err, w') | (Inr x, w') \<Rightarrow> k x w')"

text \<open>
  An SDK call is recorded, then rejects when the environment says so (leaving the
  stores as they were), and otherwise has its effect.
\<close>

definition sdk :: "env \<Rightarrow> sdk_call \<Rightarrow> 'a io \<Rightarrow> 'a io" where
  "sdk e c effect w =
     (let w1 = w\<lparr>calls := calls w @ [c]\<rparr>
      in case failure e c of
           Some m \<Rightarrow> (Inl (SdkError m), w1)
         | None \<Rightarrow> effect w1)"

subsection \<open>The document store and the blob container\<close>

text \<open>
  Modelled from the spec: the Metadata Store Gateway (\<open>insert\<close>, \<open>queryByPartition\<close>,
  \<open>pointRead\<close>, \<open>replace\<close>, \<open>delete\<close>; all point operations take id and partition value)
  and the Object Store Gateway (\<open>createContainerIfAbsent\<close>, \<open>writeBlob\<close>,
  \<open>deleteBlobIfExists\<close>) of sections 4.2 and 4.3. Both are the Azure SDK clients
  constructed at lines 32 to 36; their code is not part of the repository. A point
  read of a missing document resolves with no resource (line 124 relies on it); a
  replace or delete of a missing document and an insert of a present one reject.
\<close>

definition has_key :: "string \<Rightarrow> string \<Rightarrow> asset \<Rightarrow> bool" where
  "has_key i pk d = (id_field d = i \<and> visibility d = pk)"

definition item_read :: "env \<Rightarrow> string \<Rightarrow> string \<Rightarrow> asset option io" where
  "item_read e i pk =
     sdk e (ItemRead i pk) (\<lambda>w. (Inr (find (has_key i pk) (docs w)), w))"

definition items_create :: "env \<Rightarrow> asset \<Rightarrow> asset io" where
  "items_create e d =
     sdk e (ItemsCreate (id_field d) (visibility d))
       (\<lambda>w. if list_ex (has_key (id_field d) (visibility d)) (docs w)
            then (Inl (SdkError ''Entity with the specified id already exists in the system.''), w)
            else (Inr d, w\<lparr>docs := docs w @ [d]\<rparr>))"

definition item_replace :: "env \<Rightarrow> string \<Rightarrow> string \<Rightarrow> asset \<Rightarrow> asset io" where
  "item_replace e i pk d =
     sdk e (ItemReplace i pk)
       (\<lambda>w. if list_ex (has_key i pk) (docs w)
            then (Inr d, w\<lparr>docs := map (\<lambda>x. if has_key i pk x then d else x) (docs w)\<rparr>)
            else (Inl (SdkError ''Entity with the specified id does not exist in the system.''), w))"

definition item_delete :: "env \<Rightarrow> string \<Rightarrow> string \<Rightarrow> unit io" where
  "item_delete e i pk =
     sdk e (ItemDelete i pk)
       (\<lambda>w. if list_ex (has_key i pk) (docs w)
            then (Inr (), w\<lparr>docs := filter (\<lambda>x. \<not> has_key i pk x) (docs w)\<rparr>)
            else (Inl (SdkError ''Entity with the specified id does not exist in the system.''), w))"

text \<open>
  \<^verbatim>\<open>ORDER BY c.createdAt DESC\<close>: the timestamps are strings and are compared as
  strings. A document goes in front of the first one that is strictly older.
\<close>

fun insert_desc :: "asset \<Rightarrow> asset list \<Rightarrow> asset list" where
  "insert_desc d [] = [d]"
| "insert_desc d (x # xs) =
     (if createdAt x < createdAt d then d # x # xs else x # insert_desc d xs)"

definition order_by_createdAt_desc :: "asset list \<Rightarrow> asset list" where
  "order_by_createdAt_desc xs = foldr insert_desc xs []"

text \<open>
  The two queries of lines 104 to 106: \<^verbatim>\<open>SELECT * FROM c WHERE c.visibility = @v
  ORDER BY c.createdAt DESC\<close> and \<^verbatim>\<open>SELECT * FROM c ORDER BY c.createdAt DESC\<close>.
\<close>

definition query_items :: "env \<Rightarrow> string option \<Rightarrow> asset list io" where
  "query_items e v =
     sdk e (QueryItems v)
       (\<lambda>w. (Inr (order_by_createdAt_desc
                    (case v of
                       None \<Rightarrow> docs w
                     | Some vis \<Rightarrow> filter (\<lambda>d. visibility d = vis) (docs w))), w))"

definition createIfNotExists :: "env \<Rightarrow> unit io" where
  "createIfNotExists e =
     sdk e CreateIfNotExists (\<lambda>w. (Inr (), w\<lparr>containerExists := True\<rparr>))"

definition uploadData :: "env \<Rightarrow> string \<Rightarrow> 8 word list \<Rightarrow> string \<Rightarrow> unit io" where
  "uploadData e name buf ctype =
     sdk e (UploadData name)
       (\<lambda>w. if containerExists w
            then (Inr (), w\<lparr>blobs := (blobs w)(name \<mapsto> \<lparr>content = buf, blobContentType = ctype\<rparr>)\<rparr>)
            else (Inl (SdkError ''The specified container does not exist.''), w))"

definition deleteIfExists :: "env \<Rightarrow> string \<Rightarrow> unit io" where
  "deleteIfExists e name =
     sdk e (DeleteIfExists name) (\<lambda>w. (Inr (), w\<lparr>blobs := (blobs w)(name := None)\<rparr>))"

subsection \<open>Requests and responses\<close>

text \<open>
  The parts of \<^verbatim>\<open>req\<close> the handlers read: \<^verbatim>\<open>req.params.id\<close>,
  \<^verbatim>\<open>req.query.visibility\<close>, \<^verbatim>\<open>req.body.visibility\<close>, \<^verbatim>\<open>req.body.title\<close> and
  \<^verbatim>\<open>req.file\<close>.
\<close>

record request =
  params_id :: string
  query_visibility :: jsval
  body_visibility :: jsval
  body_title :: jsval
  req_file :: "upload_file option"

datatype json =
    ErrorBody string
  | AssetBody asset
  | AssetList "asset list"
  | Deleted string

record response =
  status :: nat
  body :: json

text \<open>
  The \<^verbatim>\<open>try { ... } catch (err) { res.status(500).json({ error: err.message || fallback }) }\<close>
  around every handler body.
\<close>

definition try_catch :: "response io \<Rightarrow> string \<Rightarrow> world \<Rightarrow> response \<times> world" where
  "try_catch m fallback w =
     (case m w of
        (Inr r, w') \<Rightarrow> (r, w')
      | (Inl err, w') \<Rightarrow>
          (\<lparr>status = 500,
            body = ErrorBody (if message err \<noteq> [] then message err else fallback)\<rparr>, w'))"

subsection \<open>The handlers\<close>

text \<open>\<^verbatim>\<open>req.file?.originalname\<close>\<close>

definition originalname_of :: "upload_file option \<Rightarrow> jsval" where
  "originalname_of f = (case f of None \<Rightarrow> JUndefined | Some u \<Rightarrow> JStr (originalname u))"

text \<open>
  \<^verbatim>\<open>POST /files\<close>, lines 58 to 96. Visibility and title are computed before the file
  is looked at; the two timestamps are two readings of the clock.
\<close>

definition post_files :: "env \<Rightarrow> request \<Rightarrow> world \<Rightarrow> response \<times> world" where
  "post_files e req =
     try_catch
       (await (from_result (safeVisibility (body_visibility req))) (\<lambda>vis.
        await (from_result (trim (js_or (js_or (body_title req) (originalname_of (req_file req)))
                                        (JStr ''Untitled'')))) (\<lambda>ttl.
        case req_file req of
          None \<Rightarrow> ret \<lparr>status = 400, body = ErrorBody ''Missing file''\<rparr>
        | Some f \<Rightarrow>
            await (createIfNotExists e) (\<lambda>_.
            let i = makeId (hasRandomUUID e) (entropy e);
                bn = replace_ws (i @ ''-'' @ originalname f)
            in await (uploadData e bn (buffer f) (mimetype f)) (\<lambda>_.
               let doc = \<lparr>id_field = i,
                          visibility = vis,
                          title = ttl,
                          fileName = originalname f,
                          mimeType = mimetype f,
                          size_field = file_size f,
                          blobName = bn,
                          blobUrl = blobUrlOf e bn,
                          createdAt = clock e 0,
                          updatedAt = clock e 1\<rparr>
               in await (items_create e doc) (\<lambda>_.
                  ret \<lparr>status = 201, body = AssetBody doc\<rparr>))))))
       ''Upload failed''"

text \<open>
  \<^verbatim>\<open>GET /files\<close>, lines 100 to 114. \<^verbatim>\<open>visibility\<close> is \<^verbatim>\<open>null\<close> when the query
  parameter is falsy; the query has a \<^verbatim>\<open>WHERE\<close> clause when \<^verbatim>\<open>visibility\<close> is truthy.
\<close>

definition list_files :: "env \<Rightarrow> request \<Rightarrow> world \<Rightarrow> response \<times> world" where
  "list_files e req =
     try_catch
       (await (if truthy (query_visibility req)
               then await (from_result (safeVisibility (query_visibility req))) (\<lambda>v. ret (Some v))
               else ret None) (\<lambda>vis.
        let query = (case vis of
                       None \<Rightarrow> None
                     | Some v \<Rightarrow> if v \<noteq> [] then Some v else None)
        in await (query_items e query) (\<lambda>resources.
           ret \<lparr>status = 200, body = AssetList resources\<rparr>)))
       ''Failed to list files''"

text \<open>\<^verbatim>\<open>GET /files/:id\<close>, lines 118 to 131.\<close>

definition get_file :: "env \<Rightarrow> request \<Rightarrow> world \<Rightarrow> response \<times> world" where
  "get_file e req =
     try_catch
       (let i = params_id req
        in await (from_result (safeVisibility (query_visibility req))) (\<lambda>vis.
           await (item_read e i vis) (\<lambda>resource.
           case resource of
             None \<Rightarrow> ret \<lparr>status = 404, body = ErrorBody ''Not found''\<rparr>
           | Some r \<Rightarrow> ret \<lparr>status = 200, body = AssetBody r\<rparr>)))
       ''Failed to get file''"

text \<open>
  \<^verbatim>\<open>PUT /files/:id\<close>, lines 137 to 157. The test \<^verbatim>\<open>!visibility\<close> of line 143 is
  on the normalised string.
\<close>

definition put_files :: "env \<Rightarrow> request \<Rightarrow> world \<Rightarrow> response \<times> world" where
  "put_files e req =
     try_catch
       (let i = params_id req
        in await (from_result (safeVisibility (js_or (body_visibility req) (query_visibility req)))) (\<lambda>vis.
           await (from_result (trim (js_or (body_title req) (JStr [])))) (\<lambda>newTitle.
           if vis = [] then ret \<lparr>status = 400, body = ErrorBody ''visibility required''\<rparr>
           else
             await (item_read e i vis) (\<lambda>resource.
             case resource of
               None \<Rightarrow> ret \<lparr>status = 404, body = ErrorBody ''Not found''\<rparr>
             | Some r \<Rightarrow>
                 let r1 = (if newTitle \<noteq> [] then r\<lparr>title := newTitle\<rparr> else r);
                     r2 = r1\<lparr>updatedAt := clock e 0\<rparr>
                 in await (item_replace e i vis r2) (\<lambda>updated.
                    ret \<lparr>status = 200, body = AssetBody updated\<rparr>)))))
       ''Failed to update file''"

text \<open>
  \<^verbatim>\<open>DELETE /files/:id\<close>, lines 161 to 185: read, delete the document, then delete
  the blob when the document names one. All three calls are awaited inside the
  \<^verbatim>\<open>try\<close> block.
\<close>

definition delete_files :: "env \<Rightarrow> request \<Rightarrow> world \<Rightarrow> response \<times> world" where
  "delete_files e req =
     try_catch
       (let i = params_id req
        in await (from_result (safeVisibility (query_visibility req))) (\<lambda>vis.
           if vis = [] then ret \<lparr>status = 400, body = ErrorBody ''visibility required''\<rparr>
           else
             await (item_read e i vis) (\<lambda>resource.
             case resource of
               None \<Rightarrow> ret \<lparr>status = 404, body = ErrorBody ''Not found''\<rparr>
             | Some r \<Rightarrow>
                 await (item_delete e i vis) (\<lambda>_.
                 await (if blobName r \<noteq> [] then deleteIfExists e (blobName r) else ret ()) (\<lambda>_.
                 ret \<lparr>status = 200, body = Deleted i\<rparr>)))))
       ''Failed to delete file''"

subsection \<open>Notions used in the statements\<close>

text \<open>
  The values on which \<^verbatim>\<open>safeVisibility\<close> does not call a missing method: the falsy
  ones (among them \<^verbatim>\<open>undefined\<close>, an absent field) and the strings.
\<close>

fun falsy_or_string :: "jsval \<Rightarrow> bool" where
  "falsy_or_string (JStr s) = True"
| "falsy_or_string (JArr xs) = False"
| "falsy_or_string (JObj kvs) = False"
| "falsy_or_string v = (\<not> truthy v)"

text \<open>Every document lies in one of the two partitions the handlers write to.\<close>

definition two_partitions :: "asset list \<Rightarrow> bool" where
  "two_partitions ds = list_all (\<lambda>d. visibility d \<in> set [''public'', ''private'']) ds"

text \<open>
  The rule of the data model for a visibility value: \<^verbatim>\<open>public\<close> when the value,
  lower-cased, is \<^verbatim>\<open>"public"\<close>; \<^verbatim>\<open>private\<close> when it is absent or anything else.
\<close>

definition visibility_rule :: "jsval \<Rightarrow> string" where
  "visibility_rule v = (if toLowerCase v = Inr ''public'' then ''public'' else ''private'')"

text \<open>The SDK calls a handler has issued: those recorded after the ones of the world it met.\<close>

definition issued :: "world \<Rightarrow> world \<Rightarrow> sdk_call list" where
  "issued w w' = drop (length (calls w)) (calls w')"

definition asset_of :: "json \<Rightarrow> asset option" where
  "asset_of j = (case j of AssetBody d \<Rightarrow> Some d | _ \<Rightarrow> None)"

subsection \<open>Sample environments, stores and requests\<close>

text \<open>
  \<open>calm\<close>: no SDK call rejects and the clock stands still during the request.
  \<open>ticking\<close>: a millisecond boundary falls between the first and the second reading
  of the clock. \<open>later\<close>: a request made a month on. \<open>blob_down\<close>: the blob
  container rejects the delete of one blob.
\<close>

definition calm :: env where
  "calm = \<lparr>failure = (\<lambda>c. None),
           hasRandomUUID = True,
           entropy = (\<lambda>n. 0),
           clock = (\<lambda>n. ''2024-01-01T00:00:00.000Z''),
           blobUrlOf = (\<lambda>n. ''https://edushare.blob.core.windows.net/uploads/'' @ n)\<rparr>"

definition ticking :: env where
  "ticking = calm\<lparr>clock := (\<lambda>n. if n = 0 then ''2024-01-01T00:00:00.000Z''
                                else ''2024-01-01T00:00:00.001Z'')\<rparr>"

definition later :: env where
  "later = calm\<lparr>clock := (\<lambda>n. ''2024-02-01T00:00:00.000Z'')\<rparr>"

definition blob_down :: env where
  "blob_down = calm\<lparr>failure := (\<lambda>c. if c = DeleteIfExists ''a-notes.pdf''
                                     then Some ''blob store unavailable'' else None)\<rparr>"

definition doc_a :: asset where
  "doc_a = \<lparr>id_field = ''a'', visibility = ''private'', title = ''Notes'',
            fileName = ''notes.pdf'', mimeType = ''application/pdf'', size_field = 3,
            blobName = ''a-notes.pdf'',
            blobUrl = ''https://edushare.blob.core.windows.net/uploads/a-notes.pdf'',
            createdAt = ''2024-01-01T00:00:00.000Z'',
            updatedAt = ''2024-01-01T00:00:00.000Z''\<rparr>"

definition doc_b :: asset where
  "doc_b = \<lparr>id_field = ''b'', visibility = ''public'', title = ''Slides'',
            fileName = ''slides.pdf'', mimeType = ''application/pdf'', size_field = 2,
            blobName = ''b-slides.pdf'',
            blobUrl = ''https://edushare.blob.core.windows.net/uploads/b-slides.pdf'',
            createdAt = ''2024-01-02T00:00:00.000Z'',
            updatedAt = ''2024-01-02T00:00:00.000Z''\<rparr>"

definition doc_c :: asset where
  "doc_c = \<lparr>id_field = ''c'', visibility = ''private'', title = ''Essay'',
            fileName = ''essay.txt'', mimeType = ''text/plain'', size_field = 1,
            blobName = ''c-essay.txt'',
            blobUrl = ''https://edushare.blob.core.windows.net/uploads/c-essay.txt'',
            createdAt = ''2024-01-03T00:00:00.000Z'',
            updatedAt = ''2024-01-03T00:00:00.000Z''\<rparr>"

definition store_a :: world where
  "store_a = \<lparr>docs = [doc_a], containerExists = True,
              blobs = [''a-notes.pdf'' \<mapsto>
                         \<lparr>content = [1, 2, 3], blobContentType = ''application/pdf''\<rparr>],
              calls = []\<rparr>"

definition store_abc :: world where
  "store_abc = \<lparr>docs = [doc_a, doc_b, doc_c], containerExists = True,
                blobs = Map.empty, calls = []\<rparr>"

definition empty_store :: world where
  "empty_store = \<lparr>docs = [], containerExists = False, blobs = Map.empty, calls = []\<rparr>"

text \<open>A request for \<^verbatim>\<open>/files/i?visibility=v\<close> with an empty body, and an upload.\<close>

definition request_for :: "string \<Rightarrow> jsval \<Rightarrow> request" where
  "request_for i v = \<lparr>params_id = i, query_visibility = v, body_visibility = JUndefined,
                      body_title = JUndefined, req_file = None\<rparr>"

definition notes_pdf :: upload_file where
  "notes_pdf = \<lparr>originalname = ''notes.pdf'', mimetype = ''application/pdf'',
                file_size = 3, buffer = [1, 2, 3]\<rparr>"

definition upload_of :: "jsval \<Rightarrow> jsval \<Rightarrow> upload_file \<Rightarrow> request" where
  "upload_of t v f = \<lparr>params_id = [], query_visibility = JUndefined, body_visibility = v,
                      body_title = t, req_file = Some f\<rparr>"

text \<open>
  A request that carries one visibility in its body and another in its query, and a
  file whose name holds a run of two spaces.
\<close>

definition request_both :: request where
  "request_both = \<lparr>params_id = ''b'', query_visibility = JStr ''private'',
                    body_visibility = JStr ''Public'', body_title = JUndefined,
                    req_file = Some notes_pdf\<rparr>"

definition my_notes_pdf :: upload_file where
  "my_notes_pdf = \<lparr>originalname = ''my  notes.pdf'', mimetype = ''application/pdf'',
                   file_size = 3, buffer = [1, 2, 3]\<rparr>"

section \<open>Basic facts\<close>

lemmas io_defs = try_catch_def await_def from_result_def ret_def sdk_def

lemmas handler_defs = post_files_def list_files_def get_file_def put_files_def delete_files_def
  try_catch_def await_def from_result_def ret_def sdk_def
  item_read_def items_create_def item_replace_def item_delete_def query_items_def
  createIfNotExists_def uploadData_def deleteIfExists_def has_key_def Let_def

lemmas fixture_defs = calm_def ticking_def later_def blob_down_def doc_a_def doc_b_def doc_c_def
  store_a_def store_abc_def empty_store_def request_for_def notes_pdf_def upload_of_def
  request_both_def my_notes_pdf_def

subsection \<open>Normalisation of the visibility\<close>

lemma safeVisibility_range:
  "safeVisibility v = Inr vis \<Longrightarrow> vis = ''public'' \<or> vis = ''private''"
  by (auto simp: safeVisibility_def split: sum.splits if_splits)

lemma safeVisibility_nonempty: "safeVisibility v = Inr vis \<Longrightarrow> vis \<noteq> []"
  using safeVisibility_range [of v vis] by auto

lemma toLowerCase_private: "toLowerCase (JStr ''private'') = Inr ''private''"
  by code_simp

lemma toLowerCase_Public: "toLowerCase (JStr ''Public'') = Inr ''public''"
  by code_simp

lemma safeVisibility_public: "safeVisibility (JStr ''public'') = Inr ''public''"
  by code_simp

lemma safeVisibility_private: "safeVisibility (JStr ''private'') = Inr ''private''"
  by code_simp

lemma safeVisibility_idem: "safeVisibility v = Inr vis \<Longrightarrow> safeVisibility (JStr vis) = Inr vis"
  using safeVisibility_range [of v vis]
  by (auto simp: safeVisibility_public safeVisibility_private)

lemma safeVisibility_falsy: "\<not> truthy v \<Longrightarrow> safeVisibility v = Inr ''private''"
  by (simp add: safeVisibility_def js_or_def toLowerCase_private del: toLowerCase.simps)

lemma safeVisibility_undefined: "safeVisibility JUndefined = Inr ''private''"
  by (simp add: safeVisibility_falsy)

lemmas sv_simps = safeVisibility_undefined safeVisibility_private safeVisibility_public

lemma safeVisibility_string:
  "safeVisibility (JStr s) = Inr (if map lower_char s = ''public'' then ''public'' else ''private'')"
proof (cases "s = []")
  case True
  then show ?thesis by (simp add: safeVisibility_falsy)
next
  case False
  then have "js_or (JStr s) (JStr ''private'') = JStr s"
    by (simp add: js_or_def)
  then show ?thesis
    by (simp add: safeVisibility_def del: map_eq_Cons_conv)
qed

lemma safeVisibility_total:
  "falsy_or_string v \<Longrightarrow>
   safeVisibility v = Inr (if toLowerCase v = Inr ''public'' then ''public'' else ''private'')"
proof (cases v)
  case (JStr s)
  then show ?thesis by (simp only: safeVisibility_string toLowerCase.simps sum.inject)
qed (simp_all add: safeVisibility_falsy)

lemma safeVisibility_js_or:
  "safeVisibility (js_or a b) = (if truthy a then safeVisibility a else safeVisibility b)"
  by (simp add: js_or_def)

lemma safeVisibility_by_rule:
  "falsy_or_string v \<Longrightarrow> safeVisibility v = Inr (visibility_rule v)"
  unfolding visibility_rule_def by (rule safeVisibility_total)

lemma falsy_or_string_js_or:
  "falsy_or_string a \<Longrightarrow> falsy_or_string b \<Longrightarrow> falsy_or_string (js_or a b)"
  by (simp add: js_or_def)

lemma visibility_rule_range: "visibility_rule v \<in> set [''public'', ''private'']"
  by (simp add: visibility_rule_def)

lemma visibility_rule_Public: "visibility_rule (JStr ''Public'') = ''public''"
  by (simp add: visibility_rule_def toLowerCase_Public del: toLowerCase.simps)

lemma visibility_rule_private: "visibility_rule (JStr ''private'') = ''private''"
  by (simp add: visibility_rule_def toLowerCase_private del: toLowerCase.simps)

subsection \<open>Point operations on the document list\<close>

lemma find_has_key: "find (has_key i pk) xs = Some d \<Longrightarrow> has_key i pk d \<and> d \<in> set xs"
  by (auto simp: find_Some_iff)

lemma find_has_key_fields:
  "find (has_key i pk) xs = Some d \<Longrightarrow> id_field d = i \<and> visibility d = pk"
  by (auto simp: find_Some_iff has_key_def)

lemma list_ex_find: "list_ex P xs = (find P xs \<noteq> None)"
  by (induction xs) auto

lemma find_filter_not: "find P (filter (\<lambda>x. \<not> P x) xs) = None"
  by (induction xs) auto

lemma find_map_replace:
  "has_key i pk d' \<Longrightarrow> find (has_key i pk) xs = Some d
   \<Longrightarrow> find (has_key i pk) (map (\<lambda>x. if has_key i pk x then d' else x) xs) = Some d'"
  by (induction xs) (auto split: if_splits)

subsection \<open>Generated ids hold no white space\<close>

lemma hex_digit_not_space:
  assumes "n < 16"
  shows "\<not> is_space (hex_digit n)"
proof -
  from assms have "hex_digit n \<in> set ''0123456789abcdef''"
    unfolding hex_digit_def by (intro nth_mem) simp
  then show ?thesis by (auto simp: is_space_def)
qed

lemma hex_byte_not_space:
  assumes "c \<in> set (hex_byte b)"
  shows "\<not> is_space c"
proof -
  have "unat b < 256" using unsigned_less [of b] by simp
  then have "unat b div 16 < 16" "unat b mod 16 < 16" by simp_all
  with assms show ?thesis
    by (auto simp: hex_byte_def hex_digit_not_space)
qed

lemma toString_hex_not_space: "c \<in> set (toString_hex bs) \<Longrightarrow> \<not> is_space c"
  by (auto simp: toString_hex_def hex_byte_not_space)

lemma randomUUID_not_space:
  assumes "c \<in> set (randomUUID en)"
  shows "\<not> is_space c"
proof -
  have dash: "\<not> is_space (CHR ''-'')"
    by (simp add: is_space_def)
  from assms consider "c = CHR ''-''" | bs where "c \<in> set (toString_hex bs)"
    by (auto simp: randomUUID_def Let_def)
  then show ?thesis
    by cases (auto simp: dash toString_hex_not_space)
qed

lemma makeId_not_space: "c \<in> set (makeId u en) \<Longrightarrow> \<not> is_space c"
  by (auto simp: makeId_def randomUUID_not_space toString_hex_not_space split: if_splits)

lemma makeId_nonempty: "makeId u en \<noteq> []"
  by (simp add: makeId_def randomUUID_def Let_def toString_hex_def randomBytes_def hex_byte_def
      upt_conv_Cons)

lemma makeId_zero: "makeId True (\<lambda>n. 0) = ''00000000-0000-4000-8000-000000000000''"
  by code_simp

lemma makeId_hex: "makeId False (\<lambda>n. 255) = ''ffffffffffffffffffffffffffffffff''"
  by code_simp

subsection \<open>Replacing runs of white space\<close>

lemma replace_runs_not_space: "c \<in> set (replace_runs b s) \<Longrightarrow> \<not> is_space c"
  by (induction s arbitrary: b) (auto simp: is_space_def split: if_splits)

lemma replace_runs_no_space: "\<forall>c\<in>set s. \<not> is_space c \<Longrightarrow> replace_runs b s = s"
  by (induction s arbitrary: b) auto

lemma replace_runs_prefix:
  "\<forall>c\<in>set p. \<not> is_space c \<Longrightarrow>
   replace_runs b (p @ s) = p @ replace_runs (if p = [] then b else False) s"
  by (induction p arbitrary: b) auto

lemma replace_ws_id_prefix:
  "\<forall>c\<in>set i. \<not> is_space c \<Longrightarrow> replace_ws (i @ ''-'' @ s) = i @ ''-'' @ replace_ws s"
  using replace_runs_prefix [of "i @ ''-''" False s]
  by (auto simp: replace_ws_def is_space_def)

lemma replace_runs_flag:
  "\<not> list_ex is_space (take 1 b) \<Longrightarrow> replace_runs True b = replace_runs False b"
  by (cases b) auto

lemma replace_runs_in_run:
  "list_all is_space ws \<Longrightarrow> \<not> list_ex is_space (take 1 b)
   \<Longrightarrow> replace_runs True (ws @ b) = replace_runs False b"
  by (induction ws) (auto simp: replace_runs_flag)

lemma replace_ws_first_run:
  assumes "\<not> list_ex is_space a" and "ws \<noteq> []" and "list_all is_space ws"
    and "\<not> list_ex is_space (take 1 b)"
  shows "replace_ws (a @ ws @ b) = a @ ''_'' @ replace_ws b"
proof -
  from assms(2) obtain c cs where ws: "ws = c # cs"
    by (cases ws) auto
  with assms(3) have c: "is_space c" and cs: "list_all is_space cs"
    by simp_all
  have "replace_runs False (ws @ b) = CHR ''_'' # replace_runs False b"
    using c replace_runs_in_run [OF cs assms(4)] by (simp add: ws)
  moreover have "replace_runs False (a @ ws @ b) = a @ replace_runs False (ws @ b)"
    using assms(1) replace_runs_prefix [of a False "ws @ b"] by (auto simp: list_ex_iff)
  ultimately show ?thesis
    by (simp add: replace_ws_def)
qed

lemma replace_ws_example:
  "replace_ws (''my  lecture'' @ [CHR 0x09] @ ''notes.pdf '') = ''my_lecture_notes.pdf_''"
  by (simp add: replace_ws_def is_space_def)

subsection \<open>The ordering of a query result\<close>







subsection \<open>What a successful response tells about the run\<close>

lemma post_files_201:
  assumes "status (fst (post_files e req w)) = 201"
  shows "\<exists>vis ttl f.
           safeVisibility (body_visibility req) = Inr vis
         \<and> trim (js_or (js_or (body_title req) (originalname_of (req_file req)))
                        (JStr ''Untitled'')) = Inr ttl
         \<and> req_file req = Some f
         \<and> body (fst (post_files e req w)) =
             AssetBody \<lparr>id_field = makeId (hasRandomUUID e) (entropy e),
                        visibility = vis,
                        title = ttl,
                        fileName = originalname f,
                        mimeType = mimetype f,
                        size_field = file_size f,
                        blobName = replace_ws (makeId (hasRandomUUID e) (entropy e) @ ''-''
                                               @ originalname f),
                        blobUrl = blobUrlOf e
                                    (replace_ws (makeId (hasRandomUUID e) (entropy e) @ ''-''
                                                 @ originalname f)),
                        createdAt = clock e 0,
                        updatedAt = clock e 1\<rparr>
         \<and> blobs (snd (post_files e req w))
              (replace_ws (makeId (hasRandomUUID e) (entropy e) @ ''-'' @ originalname f))
             = Some \<lparr>content = buffer f, blobContentType = mimetype f\<rparr>"
  using assms
  by (auto simp: post_files_def io_defs createIfNotExists_def uploadData_def items_create_def
      Let_def split: sum.splits option.splits if_splits prod.splits)

lemma post_files_asset:
  assumes "status (fst (post_files e req w)) = 201"
  shows "\<exists>d. body (fst (post_files e req w)) = AssetBody d
           \<and> id_field d \<noteq> []
           \<and> (visibility d = ''public'' \<or> visibility d = ''private'')
           \<and> createdAt d = clock e 0 \<and> updatedAt d = clock e 1"
  using post_files_201 [OF assms]
  by (auto simp: makeId_nonempty dest: safeVisibility_range)

lemma put_files_200:
  assumes "status (fst (put_files e req w)) = 200"
  shows "\<exists>vis t d.
           safeVisibility (js_or (body_visibility req) (query_visibility req)) = Inr vis
         \<and> trim (js_or (body_title req) (JStr [])) = Inr t
         \<and> find (has_key (params_id req) vis) (docs w) = Some d
         \<and> body (fst (put_files e req w)) =
             AssetBody (d\<lparr>title := (if t \<noteq> [] then t else title d), updatedAt := clock e 0\<rparr>)
         \<and> docs (snd (put_files e req w)) =
             map (\<lambda>x. if has_key (params_id req) vis x
                      then d\<lparr>title := (if t \<noteq> [] then t else title d), updatedAt := clock e 0\<rparr>
                      else x) (docs w)
         \<and> blobs (snd (put_files e req w)) = blobs w"
  using assms
  by (auto simp: put_files_def io_defs item_read_def item_replace_def Let_def
      split: sum.splits option.splits if_splits prod.splits)




subsection \<open>Which calls a handler issues, and when an upload succeeds\<close>

lemma post_files_total:
  assumes "safeVisibility (body_visibility req) = Inr vis"
    and "trim (js_or (js_or (body_title req) (originalname_of (req_file req)))
                     (JStr ''Untitled'')) = Inr ttl"
    and "req_file req = Some f"
    and "failure e CreateIfNotExists = None"
    and "failure e (UploadData (replace_ws (makeId (hasRandomUUID e) (entropy e) @ ''-''
                                            @ originalname f))) = None"
    and "failure e (ItemsCreate (makeId (hasRandomUUID e) (entropy e)) vis) = None"
    and "find (has_key (makeId (hasRandomUUID e) (entropy e)) vis) (docs w) = None"
  shows "status (fst (post_files e req w)) = 201"
  using assms
  by (simp add: post_files_def io_defs createIfNotExists_def uploadData_def items_create_def
      Let_def list_ex_find)

lemma post_files_visibility:
  assumes "status (fst (post_files e req w)) = 201"
  shows "\<exists>vis d. safeVisibility (body_visibility req) = Inr vis
          \<and> body (fst (post_files e req w)) = AssetBody d
          \<and> visibility d = vis
          \<and> docs (snd (post_files e req w)) = docs w @ [d]
          \<and> issued w (snd (post_files e req w))
             = [CreateIfNotExists, UploadData (blobName d), ItemsCreate (id_field d) vis]"
  using assms
  by (auto simp: post_files_def io_defs createIfNotExists_def uploadData_def items_create_def
      Let_def issued_def
      split: sum.splits option.splits if_splits prod.splits)

lemma get_file_issued:
  "safeVisibility (query_visibility req) = Inr vis \<Longrightarrow>
   issued w (snd (get_file e req w)) = [ItemRead (params_id req) vis]"
  by (auto simp: get_file_def io_defs item_read_def Let_def issued_def split: option.splits)

lemma delete_files_issued:
  "safeVisibility (query_visibility req) = Inr vis \<Longrightarrow>
   issued w (snd (delete_files e req w)) =
     ItemRead (params_id req) vis #
       (case failure e (ItemRead (params_id req) vis) of
          Some m \<Rightarrow> []
        | None \<Rightarrow>
            (case find (has_key (params_id req) vis) (docs w) of
               None \<Rightarrow> []
             | Some d \<Rightarrow>
                 ItemDelete (params_id req) vis #
                   (if failure e (ItemDelete (params_id req) vis) = None \<and> blobName d \<noteq> []
                    then [DeleteIfExists (blobName d)] else [])))"
  by (auto simp: delete_files_def io_defs item_read_def item_delete_def deleteIfExists_def Let_def
      issued_def list_ex_find split: option.splits dest: safeVisibility_nonempty)

lemma put_files_issued:
  "safeVisibility (js_or (body_visibility req) (query_visibility req)) = Inr vis \<Longrightarrow>
   issued w (snd (put_files e req w)) =
     (case trim (js_or (body_title req) (JStr [])) of
        Inl err \<Rightarrow> []
      | Inr t \<Rightarrow>
          ItemRead (params_id req) vis #
            (case failure e (ItemRead (params_id req) vis) of
               Some m \<Rightarrow> []
             | None \<Rightarrow>
                 (case find (has_key (params_id req) vis) (docs w) of
                    None \<Rightarrow> []
                  | Some d \<Rightarrow> [ItemReplace (params_id req) vis])))"
  by (auto simp: put_files_def io_defs item_read_def item_replace_def Let_def
      issued_def list_ex_find split: option.splits sum.splits dest: safeVisibility_nonempty)

lemma list_files_issued:
  "safeVisibility (query_visibility req) = Inr vis \<Longrightarrow>
   issued w (snd (list_files e req w))
     = [QueryItems (if truthy (query_visibility req) then Some vis else None)]"
  by (auto simp: list_files_def io_defs query_items_def Let_def issued_def
      split: option.splits dest: safeVisibility_nonempty)

subsection \<open>The handlers keep every document in one of the two partitions\<close>

lemma two_partitions_post:
  "two_partitions (docs w) \<Longrightarrow> two_partitions (docs (snd (post_files e req w)))"
  by (auto simp: post_files_def io_defs createIfNotExists_def uploadData_def items_create_def
      Let_def two_partitions_def
      split: sum.splits option.splits if_splits prod.splits dest: safeVisibility_range)

lemma two_partitions_put:
  "two_partitions (docs w) \<Longrightarrow> two_partitions (docs (snd (put_files e req w)))"
  by (auto simp: put_files_def io_defs item_read_def item_replace_def
      Let_def two_partitions_def list_all_iff
      split: sum.splits option.splits if_splits prod.splits
      dest: safeVisibility_range find_has_key)

lemma two_partitions_delete:
  "two_partitions (docs w) \<Longrightarrow> two_partitions (docs (snd (delete_files e req w)))"
  by (auto simp: delete_files_def io_defs item_read_def item_delete_def deleteIfExists_def
      Let_def two_partitions_def list_all_iff
      split: sum.splits option.splits if_splits prod.splits)

lemma docs_get_file: "docs (snd (get_file e req w)) = docs w"
  by (auto simp: get_file_def io_defs item_read_def Let_def
      split: sum.splits option.splits if_splits prod.splits)

lemma docs_list_files: "docs (snd (list_files e req w)) = docs w"
  by (auto simp: list_files_def io_defs query_items_def Let_def
      split: sum.splits option.splits if_splits prod.splits)

section \<open>The claims\<close>

subsection \<open>C1: the response of a delete whose document exists\<close>

text \<open>
  The claim reads: once the metadata delete has succeeded the response is HTTP 200 with
  \<^verbatim>\<open>{ deleted: true, id }\<close> whether the blob delete succeeds or fails, and a failure of
  the blob delete never reaches the caller. Line 177 awaits \<^verbatim>\<open>deleteIfExists\<close> inside
  the \<^verbatim>\<open>try\<close> block, so a rejection lands in the \<^verbatim>\<open>catch\<close> of line 181. In the run
  below the document is read and deleted, the blob delete rejects, and the caller gets
  HTTP 500 with the message of the rejection.
\<close>

theorem delete_blob_failure_counterexample:
  "fst (delete_files blob_down (request_for ''a'' (JStr ''private'')) store_a)
     = \<lparr>status = 500, body = ErrorBody ''blob store unavailable''\<rparr>
   \<and> docs (snd (delete_files blob_down (request_for ''a'' (JStr ''private'')) store_a)) = []
   \<and> calls (snd (delete_files blob_down (request_for ''a'' (JStr ''private'')) store_a))
     = [ItemRead ''a'' ''private'', ItemDelete ''a'' ''private'', DeleteIfExists ''a-notes.pdf'']"
  by (simp add: handler_defs fixture_defs sv_simps)

text \<open>
  Claim C1, amended. For every delete request on an existing (id, visibility) whose
  read and metadata delete succeed: the response is HTTP 200 with
  \<^verbatim>\<open>{ deleted: true, id }\<close> when the document records no blob name or the blob delete
  succeeds; when the blob delete fails the response is HTTP 500 with the error's
  message (or \<^verbatim>\<open>"Failed to delete file"\<close> when it has none). In both cases the
  document is gone from its partition.
\<close>

theorem delete_existing_response:
  assumes "safeVisibility (query_visibility req) = Inr vis"
    and "failure e (ItemRead (params_id req) vis) = None"
    and "find (has_key (params_id req) vis) (docs w) = Some d"
    and "failure e (ItemDelete (params_id req) vis) = None"
  shows "fst (delete_files e req w) =
           (if blobName d = [] then \<lparr>status = 200, body = Deleted (params_id req)\<rparr>
            else case failure e (DeleteIfExists (blobName d)) of
                   None \<Rightarrow> \<lparr>status = 200, body = Deleted (params_id req)\<rparr>
                 | Some m \<Rightarrow>
                     \<lparr>status = 500,
                       body = ErrorBody (if m \<noteq> [] then m else ''Failed to delete file'')\<rparr>)
       \<and> find (has_key (params_id req) vis) (docs (snd (delete_files e req w))) = None"
  using assms safeVisibility_nonempty [OF assms(1)]
  by (simp add: delete_files_def io_defs item_read_def item_delete_def deleteIfExists_def
      Let_def list_ex_find find_filter_not split: option.splits)

text \<open>The amended statement at a delete that meets no failure.\<close>

theorem delete_existing_response_witness:
  "safeVisibility (query_visibility (request_for ''a'' (JStr ''private''))) = Inr ''private''
   \<and> failure calm (ItemRead ''a'' ''private'') = None
   \<and> find (has_key ''a'' ''private'') (docs store_a) = Some doc_a
   \<and> failure calm (ItemDelete ''a'' ''private'') = None
   \<and> fst (delete_files calm (request_for ''a'' (JStr ''private'')) store_a)
       = \<lparr>status = 200, body = Deleted ''a''\<rparr>
   \<and> find (has_key ''a'' ''private'')
        (docs (snd (delete_files calm (request_for ''a'' (JStr ''private'')) store_a))) = None"
proof -
  have p: "params_id (request_for ''a'' (JStr ''private'')) = ''a''"
    by (simp add: request_for_def)
  have h1: "safeVisibility (query_visibility (request_for ''a'' (JStr ''private''))) = Inr ''private''"
    by (simp add: request_for_def sv_simps)
  have h2: "failure calm (ItemRead (params_id (request_for ''a'' (JStr ''private''))) ''private'') = None"
    by (simp add: calm_def)
  have h3: "find (has_key (params_id (request_for ''a'' (JStr ''private''))) ''private'') (docs store_a)
            = Some doc_a"
    by (simp add: request_for_def store_a_def doc_a_def has_key_def)
  have h4: "failure calm (ItemDelete (params_id (request_for ''a'' (JStr ''private''))) ''private'') = None"
    by (simp add: calm_def)
  have b: "blobName doc_a \<noteq> []" "failure calm (DeleteIfExists (blobName doc_a)) = None"
    by (simp_all add: doc_a_def calm_def)
  show ?thesis
    using h1 h2 h3 h4 delete_existing_response [OF h1 h2 h3 h4] b
    by (simp add: p)
qed

subsection \<open>C7: a point read sees one partition\<close>

text \<open>
  Claim C7. A read whose normalised visibility is \<open>vis\<close> and whose point lookup the
  store answers returns HTTP 404 when no document lies at (id, \<open>vis\<close>), whatever lies
  under the same id in the other partition; it returns HTTP 200 with the document when
  one lies there; and HTTP 200 is returned only with a document found at exactly that
  (id, visibility) pair.
\<close>

theorem get_file_partition:
  "(\<forall>vis. safeVisibility (query_visibility req) = Inr vis
          \<and> failure e (ItemRead (params_id req) vis) = None
          \<and> find (has_key (params_id req) vis) (docs w) = None
        \<longrightarrow> fst (get_file e req w) = \<lparr>status = 404, body = ErrorBody ''Not found''\<rparr>)
   \<and> (\<forall>vis d. safeVisibility (query_visibility req) = Inr vis
          \<and> failure e (ItemRead (params_id req) vis) = None
          \<and> find (has_key (params_id req) vis) (docs w) = Some d
        \<longrightarrow> fst (get_file e req w) = \<lparr>status = 200, body = AssetBody d\<rparr>)
   \<and> (status (fst (get_file e req w)) = 200
        \<longrightarrow> (\<exists>vis d. safeVisibility (query_visibility req) = Inr vis
                  \<and> find (has_key (params_id req) vis) (docs w) = Some d
                  \<and> id_field d = params_id req \<and> visibility d = vis
                  \<and> body (fst (get_file e req w)) = AssetBody d))"
  by (auto simp: get_file_def io_defs item_read_def Let_def
      split: sum.splits option.splits dest: find_has_key_fields)

text \<open>
  The document \<open>a\<close> lies in the private partition only: asked for under \<open>public\<close> it
  is not found, asked for under \<open>private\<close> it is returned.
\<close>

theorem get_file_partition_witness:
  "safeVisibility (query_visibility (request_for ''a'' (JStr ''public''))) = Inr ''public''
   \<and> failure calm (ItemRead ''a'' ''public'') = None
   \<and> find (has_key ''a'' ''public'') (docs store_a) = None
   \<and> find (has_key ''a'' ''private'') (docs store_a) = Some doc_a
   \<and> fst (get_file calm (request_for ''a'' (JStr ''public'')) store_a)
       = \<lparr>status = 404, body = ErrorBody ''Not found''\<rparr>
   \<and> status (fst (get_file calm (request_for ''a'' (JStr ''private'')) store_a)) = 200
   \<and> body (fst (get_file calm (request_for ''a'' (JStr ''private'')) store_a)) = AssetBody doc_a"
proof -
  have h1: "safeVisibility (query_visibility (request_for ''a'' (JStr ''public''))) = Inr ''public''"
    by (simp add: request_for_def sv_simps)
  have h2: "failure calm (ItemRead ''a'' ''public'') = None"
    by (simp add: calm_def)
  have h3: "find (has_key ''a'' ''public'') (docs store_a) = None"
    by (simp add: store_a_def doc_a_def has_key_def)
  have h4: "find (has_key ''a'' ''private'') (docs store_a) = Some doc_a"
    by (simp add: store_a_def doc_a_def has_key_def)
  have p: "params_id (request_for ''a'' (JStr ''public'')) = ''a''"
    by (simp add: request_for_def)
  have s: "status (fst (get_file calm (request_for ''a'' (JStr ''private'')) store_a)) = 200"
    by (simp add: handler_defs fixture_defs sv_simps)
  have q: "safeVisibility (query_visibility (request_for ''a'' (JStr ''private''))) = Inr ''private''"
    "params_id (request_for ''a'' (JStr ''private'')) = ''a''"
    by (simp_all add: request_for_def sv_simps)
  show ?thesis
    using h1 h2 h3 h4 s
      get_file_partition [where req = "request_for ''a'' (JStr ''public'')" and e = calm
        and w = store_a]
      get_file_partition [where req = "request_for ''a'' (JStr ''private'')" and e = calm
        and w = store_a]
    by (auto simp: p q)
qed

subsection \<open>C10: a delete that finds nothing changes nothing\<close>

text \<open>
  Claim C10. For every delete request whose point lookup finds no document at
  (id, visibility), the response is HTTP 404, the documents and the blobs are as they
  were, and the read is the only call the handler has made: no metadata delete and no
  blob delete is attempted.
\<close>

theorem delete_not_found_unchanged:
  assumes "safeVisibility (query_visibility req) = Inr vis"
    and "failure e (ItemRead (params_id req) vis) = None"
    and "find (has_key (params_id req) vis) (docs w) = None"
  shows "fst (delete_files e req w) = \<lparr>status = 404, body = ErrorBody ''Not found''\<rparr>
       \<and> docs (snd (delete_files e req w)) = docs w
       \<and> blobs (snd (delete_files e req w)) = blobs w
       \<and> containerExists (snd (delete_files e req w)) = containerExists w
       \<and> calls (snd (delete_files e req w)) = calls w @ [ItemRead (params_id req) vis]"
  using assms safeVisibility_nonempty [OF assms(1)]
  by (simp add: delete_files_def io_defs item_read_def Let_def)

text \<open>Deleting \<open>a\<close> under \<open>public\<close>, where it does not lie.\<close>

theorem delete_not_found_unchanged_witness:
  "safeVisibility (query_visibility (request_for ''a'' (JStr ''public''))) = Inr ''public''
   \<and> failure calm (ItemRead ''a'' ''public'') = None
   \<and> find (has_key ''a'' ''public'') (docs store_a) = None
   \<and> fst (delete_files calm (request_for ''a'' (JStr ''public'')) store_a)
       = \<lparr>status = 404, body = ErrorBody ''Not found''\<rparr>
   \<and> docs (snd (delete_files calm (request_for ''a'' (JStr ''public'')) store_a)) = [doc_a]
   \<and> blobs (snd (delete_files calm (request_for ''a'' (JStr ''public'')) store_a)) = blobs store_a
   \<and> calls (snd (delete_files calm (request_for ''a'' (JStr ''public'')) store_a))
       = [ItemRead ''a'' ''public'']"
proof -
  have p: "params_id (request_for ''a'' (JStr ''public'')) = ''a''"
    by (simp add: request_for_def)
  have h1: "safeVisibility (query_visibility (request_for ''a'' (JStr ''public''))) = Inr ''public''"
    by (simp add: request_for_def sv_simps)
  have h2: "failure calm (ItemRead (params_id (request_for ''a'' (JStr ''public''))) ''public'') = None"
    by (simp add: calm_def)
  have h3: "find (has_key (params_id (request_for ''a'' (JStr ''public''))) ''public'') (docs store_a)
            = None"
    by (simp add: request_for_def store_a_def doc_a_def has_key_def)
  have s: "docs store_a = [doc_a]" "calls store_a = []"
    by (simp_all add: store_a_def)
  show ?thesis
    using h1 h2 h3 delete_not_found_unchanged [OF h1 h2 h3]
    by (simp add: p s)
qed

subsection \<open>C2: a request without visibility\<close>

text \<open>
  Lines 143 and 165 answer HTTP 400 with \<^verbatim>\<open>"visibility required"\<close> when
  \<^verbatim>\<open>!visibility\<close>. The test stands after \<^verbatim>\<open>safeVisibility\<close>, whose result is
  \<^verbatim>\<open>"public"\<close> or \<^verbatim>\<open>"private"\<close> and so never falsy: neither handler ever answers 400.
\<close>

lemma put_files_never_400: "status (fst (put_files e req w)) \<noteq> 400"
  by (auto simp: put_files_def io_defs item_read_def item_replace_def Let_def
      split: sum.splits option.splits if_splits prod.splits dest: safeVisibility_nonempty)

lemma delete_files_never_400: "status (fst (delete_files e req w)) \<noteq> 400"
  by (auto simp: delete_files_def io_defs item_read_def item_delete_def deleteIfExists_def Let_def
      split: sum.splits option.splits if_splits prod.splits dest: safeVisibility_nonempty)

text \<open>
  Claim C2 says that an update whose visibility cannot be determined, and a delete
  whose visibility is missing, are answered with a validation error, HTTP 400. The
  code at such requests: \<^verbatim>\<open>PUT /files/a\<close> with the body \<^verbatim>\<open>{"title": "Renamed"}\<close> and
  no visibility in body or query is answered 200 and renames the document \<open>a\<close> of the
  private partition; \<^verbatim>\<open>DELETE /files/a\<close> with no query is answered 200 and deletes it.
\<close>

theorem missing_visibility_not_rejected:
  "fst (put_files later ((request_for ''a'' JUndefined)\<lparr>body_title := JStr ''Renamed''\<rparr>) store_a)
     = \<lparr>status = 200,
        body = AssetBody (doc_a\<lparr>title := ''Renamed'',
                                updatedAt := ''2024-02-01T00:00:00.000Z''\<rparr>)\<rparr>
   \<and> fst (delete_files calm (request_for ''a'' JUndefined) store_a)
     = \<lparr>status = 200, body = Deleted ''a''\<rparr>
   \<and> docs (snd (delete_files calm (request_for ''a'' JUndefined) store_a)) = []"
  by (simp add: handler_defs fixture_defs sv_simps js_or_def trim_str_def is_space_def)

subsection \<open>C3: the Asset an upload returns\<close>

text \<open>
  Claim C3 says that the Asset returned with HTTP 201 has a non-empty id, a visibility
  in {public, private} and \<^verbatim>\<open>createdAt\<close> equal to \<^verbatim>\<open>updatedAt\<close>. The first two hold
  (\<open>post_files_asset\<close>). Lines 85 and 86 call \<^verbatim>\<open>new Date()\<close> once for each timestamp;
  when a millisecond boundary falls between the two calls the upload of
  \<^verbatim>\<open>notes.pdf\<close> is answered 201 with two different timestamps.
\<close>

theorem upload_timestamps_differ:
  "status (fst (post_files ticking (upload_of JUndefined JUndefined notes_pdf) empty_store)) = 201
   \<and> map_option createdAt
        (asset_of (body (fst (post_files ticking (upload_of JUndefined JUndefined notes_pdf)
                                empty_store))))
       = Some ''2024-01-01T00:00:00.000Z''
   \<and> map_option updatedAt
        (asset_of (body (fst (post_files ticking (upload_of JUndefined JUndefined notes_pdf)
                                empty_store))))
       = Some ''2024-01-01T00:00:00.001Z''
   \<and> map_option createdAt
        (asset_of (body (fst (post_files ticking (upload_of JUndefined JUndefined notes_pdf)
                                empty_store))))
       \<noteq> map_option updatedAt
        (asset_of (body (fst (post_files ticking (upload_of JUndefined JUndefined notes_pdf)
                                empty_store))))"
  by (simp add: handler_defs fixture_defs asset_of_def sv_simps js_or_def originalname_of_def)

subsection \<open>C4: the stored title\<close>

text \<open>
  Claim C4 says that the stored title is the trimmed supplied title, else the original
  filename, else \<^verbatim>\<open>"Untitled"\<close>, and so is never the empty string. Line 61 trims after
  the defaults have been chosen: a supplied title of one space is truthy, is chosen,
  and is trimmed to the empty string. The upload of \<^verbatim>\<open>notes.pdf\<close> with the title
  \<^verbatim>\<open>" "\<close> is answered 201 and the document is stored with an empty title.
\<close>

theorem blank_title_stored_empty:
  "status (fst (post_files calm (upload_of (JStr '' '') JUndefined notes_pdf) empty_store)) = 201
   \<and> map_option title
        (asset_of (body (fst (post_files calm (upload_of (JStr '' '') JUndefined notes_pdf)
                                empty_store))))
       = Some []
   \<and> map title (docs (snd (post_files calm (upload_of (JStr '' '') JUndefined notes_pdf)
                              empty_store)))
       = [[]]"
  by (simp add: handler_defs fixture_defs asset_of_def sv_simps js_or_def originalname_of_def
      trim_str_def is_space_def)

subsection \<open>C5: the normalisation rule and where it is applied\<close>

text \<open>
  The claim reads: normalisation yields \<^verbatim>\<open>"private"\<close> whenever the value is absent or
  invalid and a member of {public, private} in every case, and create, list, read,
  update and delete apply this same rule. Two inputs at which that is not what the
  code does. The JSON number 5 as \<^verbatim>\<open>visibility\<close> of an update's body is truthy and
  has no \<^verbatim>\<open>toLowerCase\<close>: normalisation raises and the update is answered 500. The
  empty string is normalised to \<^verbatim>\<open>"private"\<close>, but line 102 normalises a truthy
  value only: \<^verbatim>\<open>GET /files?visibility=\<close> lists all three documents, the public one
  among them.
\<close>

theorem visibility_rule_counterexample:
  "isl (safeVisibility (JNum 5))
   \<and> status (fst (put_files calm ((request_for ''a'' JUndefined)\<lparr>body_visibility := JNum 5\<rparr>)
                     store_a)) = 500
   \<and> safeVisibility (JStr []) = Inr ''private''
   \<and> body (fst (list_files calm (request_for [] (JStr [])) store_abc))
       = AssetList [doc_c, doc_b, doc_a]"
  by (simp add: handler_defs fixture_defs safeVisibility_falsy safeVisibility_def js_or_def
      order_by_createdAt_desc_def)

text \<open>
  Claim C5, amended. For every request whose visibility values are absent, falsy or
  strings, normalisation yields what \<open>visibility_rule\<close> says: \<^verbatim>\<open>"public"\<close> when the
  value lower-cased is \<^verbatim>\<open>"public"\<close> and \<^verbatim>\<open>"private"\<close> in every other case, so always
  a member of {public, private}. Create stores the document under the normalised body
  value, and succeeds when the title can be trimmed, a file is present, the three
  SDK calls are answered and the id is new. Read and delete address the partition of
  the normalised query value. Update addresses the partition of the normalised body
  value when the body carries a truthy one and of the normalised query value
  otherwise. List filters by the normalised query value when that value is truthy and
  queries all partitions when it is falsy.
\<close>

theorem safeVisibility_rule:
  assumes "falsy_or_string (body_visibility req)"
    and "falsy_or_string (query_visibility req)"
  shows "safeVisibility (body_visibility req) = Inr (visibility_rule (body_visibility req))
       \<and> safeVisibility (query_visibility req) = Inr (visibility_rule (query_visibility req))
       \<and> visibility_rule (body_visibility req) \<in> set [''public'', ''private'']
       \<and> visibility_rule (query_visibility req) \<in> set [''public'', ''private'']
       \<and> (status (fst (post_files e req w)) = 201 \<longrightarrow>
            (\<exists>d. body (fst (post_files e req w)) = AssetBody d
               \<and> visibility d = visibility_rule (body_visibility req)
               \<and> docs (snd (post_files e req w)) = docs w @ [d]
               \<and> issued w (snd (post_files e req w))
                  = [CreateIfNotExists, UploadData (blobName d),
                     ItemsCreate (id_field d) (visibility_rule (body_visibility req))]))
       \<and> (\<forall>ttl f.
             trim (js_or (js_or (body_title req) (originalname_of (req_file req)))
                         (JStr ''Untitled'')) = Inr ttl
           \<and> req_file req = Some f
           \<and> failure e CreateIfNotExists = None
           \<and> failure e (UploadData (replace_ws (makeId (hasRandomUUID e) (entropy e) @ ''-''
                                                 @ originalname f))) = None
           \<and> failure e (ItemsCreate (makeId (hasRandomUUID e) (entropy e))
                                      (visibility_rule (body_visibility req))) = None
           \<and> find (has_key (makeId (hasRandomUUID e) (entropy e))
                            (visibility_rule (body_visibility req))) (docs w) = None
           \<longrightarrow> status (fst (post_files e req w)) = 201)
       \<and> issued w (snd (get_file e req w))
           = [ItemRead (params_id req) (visibility_rule (query_visibility req))]
       \<and> issued w (snd (delete_files e req w))
           = ItemRead (params_id req) (visibility_rule (query_visibility req)) #
             (case failure e (ItemRead (params_id req) (visibility_rule (query_visibility req))) of
                Some m \<Rightarrow> []
              | None \<Rightarrow>
                  (case find (has_key (params_id req) (visibility_rule (query_visibility req)))
                             (docs w) of
                     None \<Rightarrow> []
                   | Some d \<Rightarrow>
                       ItemDelete (params_id req) (visibility_rule (query_visibility req)) #
                         (if failure e (ItemDelete (params_id req)
                                          (visibility_rule (query_visibility req))) = None
                             \<and> blobName d \<noteq> []
                          then [DeleteIfExists (blobName d)] else [])))
       \<and> issued w (snd (put_files e req w))
           = (case trim (js_or (body_title req) (JStr [])) of
                Inl err \<Rightarrow> []
              | Inr t \<Rightarrow>
                  ItemRead (params_id req)
                    (visibility_rule (if truthy (body_visibility req) then body_visibility req
                                      else query_visibility req)) #
                    (case failure e (ItemRead (params_id req)
                            (visibility_rule (if truthy (body_visibility req)
                                              then body_visibility req
                                              else query_visibility req))) of
                       Some m \<Rightarrow> []
                     | None \<Rightarrow>
                         (case find (has_key (params_id req)
                                       (visibility_rule (if truthy (body_visibility req)
                                                         then body_visibility req
                                                         else query_visibility req)))
                                    (docs w) of
                            None \<Rightarrow> []
                          | Some d \<Rightarrow>
                              [ItemReplace (params_id req)
                                 (visibility_rule (if truthy (body_visibility req)
                                                   then body_visibility req
                                                   else query_visibility req))])))
       \<and> issued w (snd (list_files e req w))
           = [QueryItems (if truthy (query_visibility req)
                          then Some (visibility_rule (query_visibility req)) else None)]"
proof -
  have b: "safeVisibility (body_visibility req) = Inr (visibility_rule (body_visibility req))"
    using assms(1) by (rule safeVisibility_by_rule)
  have q: "safeVisibility (query_visibility req) = Inr (visibility_rule (query_visibility req))"
    using assms(2) by (rule safeVisibility_by_rule)
  have u: "safeVisibility (js_or (body_visibility req) (query_visibility req))
           = Inr (visibility_rule (if truthy (body_visibility req) then body_visibility req
                                   else query_visibility req))"
    using b q by (simp add: safeVisibility_js_or)
  have p1: "status (fst (post_files e req w)) = 201 \<longrightarrow>
            (\<exists>d. body (fst (post_files e req w)) = AssetBody d
               \<and> visibility d = visibility_rule (body_visibility req)
               \<and> docs (snd (post_files e req w)) = docs w @ [d]
               \<and> issued w (snd (post_files e req w))
                  = [CreateIfNotExists, UploadData (blobName d),
                     ItemsCreate (id_field d) (visibility_rule (body_visibility req))])"
    using post_files_visibility [of e req w] b by auto
  have p2: "\<forall>ttl f.
             trim (js_or (js_or (body_title req) (originalname_of (req_file req)))
                         (JStr ''Untitled'')) = Inr ttl
           \<and> req_file req = Some f
           \<and> failure e CreateIfNotExists = None
           \<and> failure e (UploadData (replace_ws (makeId (hasRandomUUID e) (entropy e) @ ''-''
                                                 @ originalname f))) = None
           \<and> failure e (ItemsCreate (makeId (hasRandomUUID e) (entropy e))
                                      (visibility_rule (body_visibility req))) = None
           \<and> find (has_key (makeId (hasRandomUUID e) (entropy e))
                            (visibility_rule (body_visibility req))) (docs w) = None
           \<longrightarrow> status (fst (post_files e req w)) = 201"
    using post_files_total [OF b] by blast
  show ?thesis
    using b q p1 p2 get_file_issued [OF q] delete_files_issued [OF q] put_files_issued [OF u]
      list_files_issued [OF q] visibility_rule_range
    by (simp only: simp_thms)
qed

text \<open>
  The amended statement at a request with \<^verbatim>\<open>"Public"\<close> in the body and
  \<^verbatim>\<open>"private"\<close> in the query: the upload is stored as public, the update reads the
  public partition, read, delete and list use the private one.
\<close>

theorem safeVisibility_rule_witness:
  "falsy_or_string (body_visibility request_both)
   \<and> falsy_or_string (query_visibility request_both)
   \<and> safeVisibility (body_visibility request_both) = Inr ''public''
   \<and> safeVisibility (query_visibility request_both) = Inr ''private''
   \<and> status (fst (post_files calm request_both store_abc)) = 201
   \<and> map_option visibility (asset_of (body (fst (post_files calm request_both store_abc))))
       = Some ''public''
   \<and> issued store_abc (snd (get_file calm request_both store_abc)) = [ItemRead ''b'' ''private'']
   \<and> issued store_abc (snd (delete_files calm request_both store_abc))
       = [ItemRead ''b'' ''private'']
   \<and> issued store_abc (snd (put_files calm request_both store_abc))
       = [ItemRead ''b'' ''public'', ItemReplace ''b'' ''public'']
   \<and> issued store_abc (snd (list_files calm request_both store_abc))
       = [QueryItems (Some ''private'')]"
proof -
  have h1: "falsy_or_string (body_visibility request_both)"
    by (simp add: request_both_def)
  have h2: "falsy_or_string (query_visibility request_both)"
    by (simp add: request_both_def)
  have r: "visibility_rule (body_visibility request_both) = ''public''"
    "visibility_rule (query_visibility request_both) = ''private''"
    by (simp_all add: request_both_def visibility_rule_Public visibility_rule_private)
  have f: "params_id request_both = ''b''" "truthy (body_visibility request_both)"
    "truthy (query_visibility request_both)" "body_title request_both = JUndefined"
    "req_file request_both = Some notes_pdf"
    by (simp_all add: request_both_def)
  have s: "failure calm = (\<lambda>c. None)"
    "find (has_key ''b'' ''private'') (docs store_abc) = None"
    "find (has_key ''b'' ''public'') (docs store_abc) = Some doc_b"
    by (simp_all add: fixture_defs has_key_def)
  have t: "trim (js_or (js_or JUndefined (originalname_of (Some notes_pdf))) (JStr ''Untitled''))
           = Inr ''notes.pdf''"
    "trim (js_or JUndefined (JStr [])) = Inr []"
    by (simp_all add: js_or_def originalname_of_def notes_pdf_def trim_str_def is_space_def)
  have i: "makeId (hasRandomUUID calm) (entropy calm) = ''00000000-0000-4000-8000-000000000000''"
    by (simp add: calm_def makeId_zero)
  have c: "find (has_key ''00000000-0000-4000-8000-000000000000'' ''public'') (docs store_abc) = None"
    by (simp add: fixture_defs has_key_def)
  show ?thesis
    using h1 h2 safeVisibility_rule [OF h1 h2, of calm store_abc]
    by (auto simp: r f s t i c asset_of_def)
qed

subsection \<open>C6: what a title update changes\<close>

text \<open>
  The claim reads: a successful update replaces the title when a non-empty trimmed
  title is supplied and leaves it otherwise, \<^verbatim>\<open>updatedAt\<close> advances strictly forward
  in both cases, and every other field is unchanged. Line 149 stores the reading of
  the clock, whatever the document held. When the clock reads what it read at the
  document's last change (an update in the millisecond of the upload) the update is
  answered 200 and \<^verbatim>\<open>updatedAt\<close> is what it was.
\<close>

theorem updatedAt_same_reading_counterexample:
  "status (fst (put_files calm
                  ((request_for ''a'' (JStr ''private''))\<lparr>body_title := JStr ''Renamed''\<rparr>)
                  store_a)) = 200
   \<and> map_option updatedAt
        (asset_of (body (fst (put_files calm
                  ((request_for ''a'' (JStr ''private''))\<lparr>body_title := JStr ''Renamed''\<rparr>)
                  store_a))))
       = Some (updatedAt doc_a)"
  by (simp add: handler_defs fixture_defs asset_of_def sv_simps js_or_def trim_str_def is_space_def)

text \<open>
  Claim C6, amended. For every successful title update on an existing
  (id, visibility): the title is the trimmed supplied title when that is non-empty and
  is unchanged otherwise; \<^verbatim>\<open>updatedAt\<close> is set, in both cases, to the reading of the
  clock taken by the handler; id, visibility, fileName, mimeType, size, blobName,
  blobUrl and createdAt are unchanged; and the document found afterwards at the same
  (id, visibility) is the returned one, the store holding as many documents as before
  and the same blobs.
\<close>

theorem put_files_frame:
  assumes "status (fst (put_files e req w)) = 200"
  shows "\<exists>vis t d d'.
           safeVisibility (js_or (body_visibility req) (query_visibility req)) = Inr vis
         \<and> trim (js_or (body_title req) (JStr [])) = Inr t
         \<and> find (has_key (params_id req) vis) (docs w) = Some d
         \<and> body (fst (put_files e req w)) = AssetBody d'
         \<and> title d' = (if t \<noteq> [] then t else title d)
         \<and> updatedAt d' = clock e 0
         \<and> id_field d' = id_field d \<and> visibility d' = visibility d
         \<and> fileName d' = fileName d \<and> mimeType d' = mimeType d
         \<and> size_field d' = size_field d \<and> blobName d' = blobName d
         \<and> blobUrl d' = blobUrl d \<and> createdAt d' = createdAt d
         \<and> id_field d' = params_id req \<and> visibility d' = vis
         \<and> find (has_key (params_id req) vis) (docs (snd (put_files e req w))) = Some d'
         \<and> length (docs (snd (put_files e req w))) = length (docs w)
         \<and> blobs (snd (put_files e req w)) = blobs w"
proof -
  from put_files_200 [OF assms] obtain vis t d where
    v: "safeVisibility (js_or (body_visibility req) (query_visibility req)) = Inr vis"
    and t: "trim (js_or (body_title req) (JStr [])) = Inr t"
    and d: "find (has_key (params_id req) vis) (docs w) = Some d"
    and b: "body (fst (put_files e req w)) =
             AssetBody (d\<lparr>title := (if t \<noteq> [] then t else title d), updatedAt := clock e 0\<rparr>)"
    and s: "docs (snd (put_files e req w)) =
             map (\<lambda>x. if has_key (params_id req) vis x
                      then d\<lparr>title := (if t \<noteq> [] then t else title d), updatedAt := clock e 0\<rparr>
                      else x) (docs w)"
    and bl: "blobs (snd (put_files e req w)) = blobs w"
    by blast
  define d' where "d' = d\<lparr>title := (if t \<noteq> [] then t else title d), updatedAt := clock e 0\<rparr>"
  have k: "id_field d = params_id req \<and> visibility d = vis"
    using find_has_key_fields [OF d] .
  have k': "has_key (params_id req) vis d'"
    using k by (simp add: has_key_def d'_def)
  have f: "find (has_key (params_id req) vis) (docs (snd (put_files e req w))) = Some d'"
    unfolding s d'_def [symmetric] using find_map_replace [OF k' d] .
  have l: "length (docs (snd (put_files e req w))) = length (docs w)"
    by (simp add: s)
  show ?thesis
    apply (rule exI [of _ vis], rule exI [of _ t], rule exI [of _ d], rule exI [of _ d'])
    using v t d b f l bl k by (simp add: d'_def)
qed

text \<open>
  Renaming \<open>a\<close> a month after its upload, with a title that has blanks around it: the
  title is stored trimmed and \<^verbatim>\<open>updatedAt\<close> is the later reading.
\<close>

theorem put_files_frame_witness:
  "status (fst (put_files later
                  ((request_for ''a'' (JStr ''private''))\<lparr>body_title := JStr '' Renamed ''\<rparr>)
                  store_a)) = 200
   \<and> body (fst (put_files later
                  ((request_for ''a'' (JStr ''private''))\<lparr>body_title := JStr '' Renamed ''\<rparr>)
                  store_a))
       = AssetBody (doc_a\<lparr>title := ''Renamed'', updatedAt := ''2024-02-01T00:00:00.000Z''\<rparr>)
   \<and> docs (snd (put_files later
                  ((request_for ''a'' (JStr ''private''))\<lparr>body_title := JStr '' Renamed ''\<rparr>)
                  store_a))
       = [doc_a\<lparr>title := ''Renamed'', updatedAt := ''2024-02-01T00:00:00.000Z''\<rparr>]
   \<and> updatedAt doc_a < ''2024-02-01T00:00:00.000Z''"
proof -
  have h: "status (fst (put_files later
                  ((request_for ''a'' (JStr ''private''))\<lparr>body_title := JStr '' Renamed ''\<rparr>)
                  store_a)) = 200"
    by (simp add: handler_defs fixture_defs sv_simps js_or_def trim_str_def is_space_def)
  show ?thesis
    using h put_files_frame [OF h]
    by (simp add: handler_defs fixture_defs sv_simps js_or_def trim_str_def is_space_def)
qed

subsection \<open>C8: what a listing returns\<close>



subsection \<open>C9: the blob name\<close>

text \<open>
  Claim C9. An upload is answered 201 whenever its title can be trimmed, a file is
  present, the three SDK calls are answered and the id is new, whatever the filename.
  Its \<^verbatim>\<open>blobName\<close> is the generated id, a hyphen and the original filename, with
  every run of white space in the whole replaced by one underscore. The id holds no
  white space, so the replacement touches the filename only: a filename without white
  space, such as \<^verbatim>\<open>notes.pdf\<close>, is kept as it is, and where the filename is a part
  \<open>a\<close> without white space, a run \<open>ws\<close> of white space and a rest \<open>b\<close>, the blob name
  is the id, a hyphen, \<open>a\<close>, an underscore and the rest sanitised in turn. The result
  holds no white space, and the blob is stored under that name.
\<close>

theorem post_files_blobName:
  "(status (fst (post_files e req w)) = 201 \<longrightarrow>
     (\<exists>f d. req_file req = Some f
           \<and> body (fst (post_files e req w)) = AssetBody d
           \<and> id_field d = makeId (hasRandomUUID e) (entropy e)
           \<and> fileName d = originalname f
           \<and> blobName d = replace_ws (id_field d @ ''-'' @ fileName d)
           \<and> blobName d = id_field d @ ''-'' @ replace_ws (fileName d)
           \<and> list_all (\<lambda>c. \<not> is_space c) (blobName d)
           \<and> (\<not> list_ex is_space (fileName d) \<longrightarrow> blobName d = id_field d @ ''-'' @ fileName d)
           \<and> (\<forall>a ws b. fileName d = a @ ws @ b
                  \<and> \<not> list_ex is_space a \<and> ws \<noteq> [] \<and> list_all is_space ws
                  \<and> \<not> list_ex is_space (take 1 b)
                \<longrightarrow> blobName d = id_field d @ ''-'' @ a @ ''_'' @ replace_ws b
                  \<and> (\<not> list_ex is_space b \<longrightarrow> blobName d = id_field d @ ''-'' @ a @ ''_'' @ b))
           \<and> blobs (snd (post_files e req w)) (blobName d)
               = Some \<lparr>content = buffer f, blobContentType = mimetype f\<rparr>))
   \<and> (\<forall>vis ttl f.
         safeVisibility (body_visibility req) = Inr vis
       \<and> trim (js_or (js_or (body_title req) (originalname_of (req_file req)))
                     (JStr ''Untitled'')) = Inr ttl
       \<and> req_file req = Some f
       \<and> failure e CreateIfNotExists = None
       \<and> failure e (UploadData (replace_ws (makeId (hasRandomUUID e) (entropy e) @ ''-''
                                             @ originalname f))) = None
       \<and> failure e (ItemsCreate (makeId (hasRandomUUID e) (entropy e)) vis) = None
       \<and> find (has_key (makeId (hasRandomUUID e) (entropy e)) vis) (docs w) = None
       \<longrightarrow> status (fst (post_files e req w)) = 201)"
proof (intro conjI impI allI)
  assume st: "status (fst (post_files e req w)) = 201"
  from post_files_201 [OF st] obtain f d where
    f: "req_file req = Some f" and b: "body (fst (post_files e req w)) = AssetBody d"
    and i: "id_field d = makeId (hasRandomUUID e) (entropy e)"
    and n: "fileName d = originalname f"
    and bn: "blobName d = replace_ws (id_field d @ ''-'' @ fileName d)"
    and sto: "blobs (snd (post_files e req w)) (blobName d)
               = Some \<lparr>content = buffer f, blobContentType = mimetype f\<rparr>"
    by force
  have nosp: "\<forall>c\<in>set (id_field d). \<not> is_space c"
    by (simp add: i makeId_not_space)
  have pre: "blobName d = id_field d @ ''-'' @ replace_ws (fileName d)"
    by (simp only: bn replace_ws_id_prefix [OF nosp])
  have clean: "list_all (\<lambda>c. \<not> is_space c) (blobName d)"
    by (simp add: bn replace_ws_def list_all_iff replace_runs_not_space)
  have same: "\<not> list_ex is_space s \<Longrightarrow> replace_ws s = s" for s
    by (simp add: replace_ws_def list_ex_iff replace_runs_no_space)
  have run: "\<forall>a ws b. fileName d = a @ ws @ b
                  \<and> \<not> list_ex is_space a \<and> ws \<noteq> [] \<and> list_all is_space ws
                  \<and> \<not> list_ex is_space (take 1 b)
                \<longrightarrow> blobName d = id_field d @ ''-'' @ a @ ''_'' @ replace_ws b
                  \<and> (\<not> list_ex is_space b \<longrightarrow> blobName d = id_field d @ ''-'' @ a @ ''_'' @ b)"
    using pre same by (auto simp: replace_ws_first_run)
  show "\<exists>f d. req_file req = Some f
           \<and> body (fst (post_files e req w)) = AssetBody d
           \<and> id_field d = makeId (hasRandomUUID e) (entropy e)
           \<and> fileName d = originalname f
           \<and> blobName d = replace_ws (id_field d @ ''-'' @ fileName d)
           \<and> blobName d = id_field d @ ''-'' @ replace_ws (fileName d)
           \<and> list_all (\<lambda>c. \<not> is_space c) (blobName d)
           \<and> (\<not> list_ex is_space (fileName d) \<longrightarrow> blobName d = id_field d @ ''-'' @ fileName d)
           \<and> (\<forall>a ws b. fileName d = a @ ws @ b
                  \<and> \<not> list_ex is_space a \<and> ws \<noteq> [] \<and> list_all is_space ws
                  \<and> \<not> list_ex is_space (take 1 b)
                \<longrightarrow> blobName d = id_field d @ ''-'' @ a @ ''_'' @ replace_ws b
                  \<and> (\<not> list_ex is_space b \<longrightarrow> blobName d = id_field d @ ''-'' @ a @ ''_'' @ b))
           \<and> blobs (snd (post_files e req w)) (blobName d)
               = Some \<lparr>content = buffer f, blobContentType = mimetype f\<rparr>"
  proof (intro exI [of _ f] exI [of _ d] conjI)
    show "\<not> list_ex is_space (fileName d) \<longrightarrow> blobName d = id_field d @ ''-'' @ fileName d"
      using pre same [of "fileName d"] by simp
  qed (fact f b i n bn pre clean run sto)+
next
  fix vis ttl f
  assume "safeVisibility (body_visibility req) = Inr vis
       \<and> trim (js_or (js_or (body_title req) (originalname_of (req_file req)))
                     (JStr ''Untitled'')) = Inr ttl
       \<and> req_file req = Some f
       \<and> failure e CreateIfNotExists = None
       \<and> failure e (UploadData (replace_ws (makeId (hasRandomUUID e) (entropy e) @ ''-''
                                             @ originalname f))) = None
       \<and> failure e (ItemsCreate (makeId (hasRandomUUID e) (entropy e)) vis) = None
       \<and> find (has_key (makeId (hasRandomUUID e) (entropy e)) vis) (docs w) = None"
  then show "status (fst (post_files e req w)) = 201"
    using post_files_total [of req vis ttl f e w] by blast
qed

text \<open>
  The uploads of \<^verbatim>\<open>my  notes.pdf\<close> (two spaces) and of \<^verbatim>\<open>notes.pdf\<close>, the random bytes
  all zero.
\<close>

theorem post_files_blobName_witness:
  "safeVisibility (body_visibility (upload_of JUndefined JUndefined my_notes_pdf)) = Inr ''private''
   \<and> req_file (upload_of JUndefined JUndefined my_notes_pdf) = Some my_notes_pdf
   \<and> originalname my_notes_pdf = ''my'' @ ''  '' @ ''notes.pdf''
   \<and> status (fst (post_files calm (upload_of JUndefined JUndefined my_notes_pdf) empty_store)) = 201
   \<and> map_option blobName
        (asset_of (body (fst (post_files calm (upload_of JUndefined JUndefined my_notes_pdf)
                                empty_store))))
       = Some ''00000000-0000-4000-8000-000000000000-my_notes.pdf''
   \<and> status (fst (post_files calm (upload_of JUndefined JUndefined notes_pdf) empty_store)) = 201
   \<and> map_option blobName
        (asset_of (body (fst (post_files calm (upload_of JUndefined JUndefined notes_pdf)
                                empty_store))))
       = Some ''00000000-0000-4000-8000-000000000000-notes.pdf''"
proof -
  have v: "safeVisibility (body_visibility (upload_of JUndefined JUndefined f)) = Inr ''private''"
    for f
    by (simp add: upload_of_def sv_simps)
  have f: "req_file (upload_of JUndefined JUndefined f) = Some f" for f
    by (simp add: upload_of_def)
  have o: "originalname my_notes_pdf = ''my'' @ ''  '' @ ''notes.pdf''"
    "originalname notes_pdf = ''notes.pdf''"
    by (simp_all add: my_notes_pdf_def notes_pdf_def)
  have t: "trim (js_or (js_or (body_title (upload_of JUndefined JUndefined my_notes_pdf))
             (originalname_of (req_file (upload_of JUndefined JUndefined my_notes_pdf))))
             (JStr ''Untitled'')) = Inr ''my  notes.pdf''"
    "trim (js_or (js_or (body_title (upload_of JUndefined JUndefined notes_pdf))
             (originalname_of (req_file (upload_of JUndefined JUndefined notes_pdf))))
             (JStr ''Untitled'')) = Inr ''notes.pdf''"
    by (simp_all add: upload_of_def js_or_def originalname_of_def my_notes_pdf_def notes_pdf_def
        trim_str_def is_space_def)
  have c: "failure calm = (\<lambda>c. None)" "docs empty_store = []"
    by (simp_all add: calm_def empty_store_def)
  have i: "makeId (hasRandomUUID calm) (entropy calm) = ''00000000-0000-4000-8000-000000000000''"
    by (simp add: calm_def makeId_zero)
  note my = post_files_blobName [of calm "upload_of JUndefined JUndefined my_notes_pdf" empty_store]
  note pl = post_files_blobName [of calm "upload_of JUndefined JUndefined notes_pdf" empty_store]
  have h1: "status (fst (post_files calm (upload_of JUndefined JUndefined my_notes_pdf) empty_store))
            = 201"
    using my v f t c by simp
  have h2: "status (fst (post_files calm (upload_of JUndefined JUndefined notes_pdf) empty_store))
            = 201"
    using pl v f t c by simp
  have g1: "map_option blobName
        (asset_of (body (fst (post_files calm (upload_of JUndefined JUndefined my_notes_pdf)
                                empty_store))))
       = Some ''00000000-0000-4000-8000-000000000000-my_notes.pdf''"
    by (simp add: handler_defs fixture_defs my_notes_pdf_def asset_of_def sv_simps js_or_def
        originalname_of_def makeId_zero replace_ws_def is_space_def)
  have g2: "map_option blobName
        (asset_of (body (fst (post_files calm (upload_of JUndefined JUndefined notes_pdf)
                                empty_store))))
       = Some ''00000000-0000-4000-8000-000000000000-notes.pdf''"
    by (simp add: handler_defs fixture_defs asset_of_def sv_simps js_or_def
        originalname_of_def makeId_zero replace_ws_def is_space_def)
  show ?thesis
    using v f o(1) h1 h2 g1 g2 by simp
qed

end
